theory Spec2Isabelle
  imports Complex_Main
begin

section \<open>The embedding abstraction (class \<open>Embeddings\<close> of flair/embeddings/base.py)\<close>

subsection \<open>Data points and the world an embedding acts on\<close>

text \<open>
  A data point is a mutable object; the only part of it the base class reads is its
  dictionary \<open>_embeddings\<close> from embedding names to vectors. Objects are modelled by
  references into a heap, so that "the same object" is equality of references.
  The world also records every invocation of the computation hook
  \<open>_add_embeddings_internal\<close>, with the list it was given.
\<close>

type_synonym ref = nat

type_synonym vector = "real list"

type_synonym heap = "ref \<Rightarrow> (string \<rightharpoonup> vector)"

record world =
  heap :: heap
  hook_calls :: "ref list list"

text \<open>
  The attributes an instance may carry when \<open>Embeddings.__init__\<close> starts: a subclass
  constructor may have set either of them before; \<open>None\<close> is "\<open>hasattr\<close> is false".
\<close>

record instance_attrs =
  attr_name :: "string option"
  attr_static_embeddings :: "bool option"

text \<open>An initialised embedding: both attributes exist.\<close>

record Embeddings =
  name :: string
  static_embeddings :: bool

text \<open>
  \<open>__init__\<close> (lines 18 to 25): each attribute is set only when the instance does not
  have it yet. The call \<open>super().__init__()\<close> that follows is the constructor of
  \<open>torch.nn.Module\<close>, which touches neither attribute.
\<close>

definition Embeddings_init :: "instance_attrs \<Rightarrow> Embeddings" where
  "Embeddings_init self =
     \<lparr> name = (case attr_name self of None \<Rightarrow> ''unnamed_embedding'' | Some n \<Rightarrow> n),
       static_embeddings = (case attr_static_embeddings self of None \<Rightarrow> False | Some s \<Rightarrow> s) \<rparr>"

subsection \<open>\<open>embed\<close> and the completeness check\<close>

text \<open>The argument of \<open>embed\<close> has type \<open>Union[DT, List[DT]]\<close>.\<close>

datatype embed_arg = Single ref | Many "ref list"

text \<open>Lines 43 and 44: a value that is not a list is wrapped in a one-element list.\<close>

fun as_list :: "embed_arg \<Rightarrow> ref list" where
  "as_list (Single d) = [d]"
| "as_list (Many ds) = ds"

text \<open>
  \<open>_everything_embedded\<close> (lines 51 to 55): the loop returns \<open>False\<close> at the first data
  point whose dictionary lacks the embedding's name, and \<open>True\<close> when it runs out.
\<close>

fun everything_embedded :: "Embeddings \<Rightarrow> ref list \<Rightarrow> heap \<Rightarrow> bool" where
  "everything_embedded self [] h = True"
| "everything_embedded self (data_point # data_points) h =
     (if h data_point (name self) = None then False
      else everything_embedded self data_points h)"

text \<open>
  \<open>embed\<close> (lines 38 to 49). The hook is supplied by the subclass, so it is a parameter:
  given the list of data points and the heap it yields the heap it leaves behind, and
  the exception it raised, if any. An exception of the hook propagates out of \<open>embed\<close>
  (\<open>Inl\<close>); otherwise \<open>embed\<close> returns the list (\<open>Inr\<close>). The hook is taken to act
  on the vector maps of data points only: it neither rebinds the attributes of the
  embedding nor mutates the list it is given.
\<close>

definition embed ::
  "(ref list \<Rightarrow> heap \<Rightarrow> 'x option \<times> heap) \<Rightarrow> Embeddings \<Rightarrow> embed_arg \<Rightarrow> world
     \<Rightarrow> ('x + ref list) \<times> world" where
  "embed add_embeddings_internal self arg w =
     (let data_points = as_list arg in
      if \<not> everything_embedded self data_points (heap w) \<or> \<not> static_embeddings self
      then
        (case add_embeddings_internal data_points (heap w) of
           (raised, h') \<Rightarrow>
             (case raised of
                Some ex \<Rightarrow> Inl ex
              | None \<Rightarrow> Inr data_points,
              \<lparr> heap = h', hook_calls = hook_calls w @ [data_points] \<rparr>))
      else (Inr data_points, w))"

text \<open>
  An example subclass hook: it stores the vector \<open>v\<close> under the name \<open>n\<close> in every data
  point it is given, and raises nothing.
\<close>

definition store_hook :: "string \<Rightarrow> vector \<Rightarrow> ref list \<Rightarrow> heap \<Rightarrow> unit option \<times> heap" where
  "store_hook n v data_points h =
     (None, (\<lambda>d. if d \<in> set data_points then (h d)(n \<mapsto> v) else h d))"

text \<open>An example subclass hook that raises at once and writes nothing.\<close>

definition failing_hook :: "ref list \<Rightarrow> heap \<Rightarrow> unit option \<times> heap" where
  "failing_hook data_points h = (Some (), h)"

subsection \<open>\<open>get_instance_parameters\<close>\<close>

datatype py_error = KeyError string

text \<open>
  \<open>get_instance_parameters\<close> (lines 71 to 82). The dictionary \<open>locals\<close> is an association
  list in the dictionary's iteration order (its keys are distinct). The reflective call
  \<open>inspect.signature(class_definition.__init__).parameters\<close> belongs to the Python
  library, so it is the parameter \<open>init_parameters\<close>: it maps the result of
  \<open>locals.get("__class__")\<close> (\<open>None\<close> when the key is missing) to the parameter names
  in the order of the signature. \<open>set.remove\<close> raises \<open>KeyError\<close> when the element is
  missing.
\<close>

definition get_instance_parameters ::
  "('v option \<Rightarrow> string list) \<Rightarrow> (string \<times> 'v) list \<Rightarrow> py_error + (string \<times> 'v) list" where
  "get_instance_parameters init_parameters locals =
     (let class_definition = map_of locals ''__class__'';
          instance_parameter_names = set (init_parameters class_definition)
      in if ''self'' \<notin> instance_parameter_names then Inl (KeyError ''self'')
         else
           (let instance_parameter_names = instance_parameter_names - {''self''};
                instance_parameter_names = insert ''__class__'' instance_parameter_names
            in Inr (filter (\<lambda>(class_attribute, attribute_value).
                              class_attribute \<in> instance_parameter_names) locals)))"

text \<open>
  An example of what \<open>inspect.signature\<close> reports: the parameters of a constructor
  declared as \<open>def __init__(self, *args, b)\<close>, for every class object.
\<close>

definition kwonly_init_parameters :: "nat option \<Rightarrow> string list" where
  "kwonly_init_parameters class_definition = [''self'', ''args'', ''b'']"

section \<open>The scalar mixture (class \<open>ScalarMix\<close>)\<close>

subsection \<open>Numbers of type \<open>torch.float\<close>\<close>

text \<open>
  The parameters are built with \<open>dtype=torch.float\<close>, so every number that \<open>forward\<close>
  computes is an IEEE 754 binary32 value, and every operation rounds its exact result
  to the nearest such value, ties to even. \<open>Finite x\<close> is the value \<open>x\<close>, with
  \<open>Finite 0\<close> the positive zero; \<open>NegZero\<close> is the negative zero. The entries of
  tensors are taken among the numbers that \<open>torch.float\<close> has; the operations below
  return such numbers.
\<close>

datatype float32 = Finite real | NegZero | PosInf | NegInf | NaN

definition pow2 :: "int \<Rightarrow> real" where
  "pow2 e = (if 0 \<le> e then 2 ^ nat e else 1 / 2 ^ nat (- e))"

text \<open>
  The exponent of a nonzero number \<open>x\<close>: the \<open>e\<close> between \<open>-126\<close> and \<open>127\<close> with
  \<open>2\<^sup>e \<le> |x| < 2\<^sup>e\<^sup>+\<^sup>1\<close>, or the nearest bound when there is none (\<open>-126\<close> for the
  subnormal numbers). It is found from 0, first upwards, then downwards.
\<close>

function raise_exponent :: "real \<Rightarrow> int \<Rightarrow> int" where
  "raise_exponent x e =
     (if e < 127 \<and> pow2 (e + 1) \<le> \<bar>x\<bar> then raise_exponent x (e + 1) else e)"
  by pat_completeness auto
termination
  by (relation "measure (\<lambda>(x, e). nat (127 - e))") auto

function lower_exponent :: "real \<Rightarrow> int \<Rightarrow> int" where
  "lower_exponent x e =
     (if - 126 < e \<and> \<bar>x\<bar> < pow2 e then lower_exponent x (e - 1) else e)"
  by pat_completeness auto
termination
  by (relation "measure (\<lambda>(x, e). nat (e + 126))") auto

declare raise_exponent.simps [simp del]

declare lower_exponent.simps [simp del]

definition exponent32 :: "real \<Rightarrow> int" where
  "exponent32 x = lower_exponent x (raise_exponent x 0)"

definition round_half_even :: "real \<Rightarrow> int" where
  "round_half_even y =
     (let f = \<lfloor>y\<rfloor>; d = y - of_int f
      in if d < 1 / 2 then f else if 1 / 2 < d then f + 1 else if even f then f else f + 1)"

text \<open>
  Rounding an exact result: to a multiple of the spacing \<open>2\<^sup>e\<^sup>-\<^sup>2\<^sup>3\<close> of the numbers with
  its exponent; a result of magnitude \<open>2\<^sup>1\<^sup>2\<^sup>8\<close> or more is an infinity.
\<close>

definition round32 :: "real \<Rightarrow> float32" where
  "round32 x =
     (if x = 0 then Finite 0
      else
        (let q = pow2 (exponent32 x - 23);
             r = of_int (round_half_even (x / q)) * q
         in if pow2 128 \<le> \<bar>r\<bar> then (if 0 < r then PosInf else NegInf) else Finite r))"

fun is_nan :: "float32 \<Rightarrow> bool" where
  "is_nan NaN = True"
| "is_nan a = False"

fun is_inf :: "float32 \<Rightarrow> bool" where
  "is_inf PosInf = True"
| "is_inf NegInf = True"
| "is_inf a = False"

fun is_zero :: "float32 \<Rightarrow> bool" where
  "is_zero (Finite x) = (x = 0)"
| "is_zero NegZero = True"
| "is_zero a = False"

text \<open>The sign bit (of a number that is not NaN) and the value of a finite number.\<close>

fun negative :: "float32 \<Rightarrow> bool" where
  "negative (Finite x) = (x < 0)"
| "negative NegZero = True"
| "negative NegInf = True"
| "negative a = False"

fun value_of :: "float32 \<Rightarrow> real" where
  "value_of (Finite x) = x"
| "value_of a = 0"

definition signed_zero :: "bool \<Rightarrow> float32" where
  "signed_zero neg = (if neg then NegZero else Finite 0)"

definition signed_inf :: "bool \<Rightarrow> float32" where
  "signed_inf neg = (if neg then NegInf else PosInf)"

text \<open>A product or quotient that rounds to zero keeps the sign of the exact result.\<close>

definition with_sign :: "bool \<Rightarrow> float32 \<Rightarrow> float32" where
  "with_sign neg r = (if r = Finite 0 then signed_zero neg else r)"

definition fadd :: "float32 \<Rightarrow> float32 \<Rightarrow> float32" where
  "fadd a b =
     (if is_nan a \<or> is_nan b then NaN
      else if is_inf a \<or> is_inf b
        then (if is_inf a \<and> is_inf b \<and> a \<noteq> b then NaN else if is_inf a then a else b)
      else if a = NegZero \<and> b = NegZero then NegZero
      else round32 (value_of a + value_of b))"

definition fmul :: "float32 \<Rightarrow> float32 \<Rightarrow> float32" where
  "fmul a b =
     (if is_nan a \<or> is_nan b then NaN
      else if is_inf a \<or> is_inf b
        then (if is_zero a \<or> is_zero b then NaN else signed_inf (negative a \<noteq> negative b))
      else with_sign (negative a \<noteq> negative b) (round32 (value_of a * value_of b)))"

definition fdiv :: "float32 \<Rightarrow> float32 \<Rightarrow> float32" where
  "fdiv a b =
     (if is_nan a \<or> is_nan b then NaN
      else if is_inf a then (if is_inf b then NaN else signed_inf (negative a \<noteq> negative b))
      else if is_inf b then signed_zero (negative a \<noteq> negative b)
      else if is_zero b
        then (if is_zero a then NaN else signed_inf (negative a \<noteq> negative b))
      else with_sign (negative a \<noteq> negative b) (round32 (value_of a / value_of b)))"

fun fneg :: "float32 \<Rightarrow> float32" where
  "fneg (Finite x) = (if x = 0 then NegZero else Finite (- x))"
| "fneg NegZero = Finite 0"
| "fneg PosInf = NegInf"
| "fneg NegInf = PosInf"
| "fneg NaN = NaN"

definition fsub :: "float32 \<Rightarrow> float32 \<Rightarrow> float32" where
  "fsub a b = fadd a (fneg b)"

text \<open>The maximum as torch reduces it: a NaN operand gives NaN.\<close>

definition fless :: "float32 \<Rightarrow> float32 \<Rightarrow> bool" where
  "fless a b \<longleftrightarrow>
     (a = NegInf \<and> b \<noteq> NegInf) \<or> (b = PosInf \<and> a \<noteq> PosInf)
     \<or> (\<not> is_inf a \<and> \<not> is_inf b \<and> value_of a < value_of b)"

definition fmax :: "float32 \<Rightarrow> float32 \<Rightarrow> float32" where
  "fmax a b = (if is_nan a \<or> is_nan b then NaN else if fless a b then b else a)"

text \<open>A Python integer as a \<open>torch.float\<close> number.\<close>

definition float_of_int :: "int \<Rightarrow> float32" where
  "float_of_int c = round32 (of_int c)"

text \<open>
  The exponential of the library is a parameter \<open>fexp\<close> of the model. For the
  examples: an exponential that is correctly rounded; \<open>exp 0 = 1\<close> is exact.
\<close>

fun exp32 :: "float32 \<Rightarrow> float32" where
  "exp32 (Finite x) = round32 (exp x)"
| "exp32 NegZero = Finite 1"
| "exp32 PosInf = PosInf"
| "exp32 NegInf = Finite 0"
| "exp32 NaN = NaN"

subsection \<open>Tensors and the torch operations that \<open>forward\<close> uses\<close>

text \<open>
  A tensor is its shape and its entries in row-major order. A tensor of torch always
  has as many entries as its shape says.
\<close>

record tensor =
  shape :: "nat list"
  data :: "float32 list"

definition well_shaped :: "tensor \<Rightarrow> bool" where
  "well_shaped t \<longleftrightarrow> length (data t) = prod_list (shape t)"

datatype torch_error =
  EmptyCat        \<comment> \<open>\<open>torch.cat\<close> of an empty list: RuntimeError\<close>
| ShapeMismatch   \<comment> \<open>operands that cannot be broadcast together: RuntimeError\<close>

text \<open>
  Broadcasting, as torch defines it: the shapes are aligned at the last dimension, the
  shorter one is filled with ones in front, and two aligned dimensions are compatible
  when they are equal or one of them is 1.
\<close>

definition pad_shape :: "nat \<Rightarrow> nat list \<Rightarrow> nat list" where
  "pad_shape n s = replicate (n - length s) 1 @ s"

definition broadcast_dim :: "nat \<Rightarrow> nat \<Rightarrow> nat option" where
  "broadcast_dim a b =
     (if a = b then Some a else if a = 1 then Some b else if b = 1 then Some a else None)"

fun broadcast_dims :: "nat list \<Rightarrow> nat list \<Rightarrow> nat list option" where
  "broadcast_dims (a # s) (b # t) =
     (case broadcast_dim a b of
        None \<Rightarrow> None
      | Some c \<Rightarrow> map_option ((#) c) (broadcast_dims s t))"
| "broadcast_dims s t = Some []"

definition broadcast_shapes :: "nat list \<Rightarrow> nat list \<Rightarrow> nat list option" where
  "broadcast_shapes s t =
     (let n = max (length s) (length t) in broadcast_dims (pad_shape n s) (pad_shape n t))"

text \<open>
  \<open>expand s t d\<close> lays the entries \<open>d\<close> of a tensor of shape \<open>s\<close> out in the shape
  \<open>t\<close> it is broadcast to (both of one rank): a dimension that agrees is traversed
  block by block, a dimension of size 1 is repeated.
\<close>

fun expand :: "nat list \<Rightarrow> nat list \<Rightarrow> 'a list \<Rightarrow> 'a list" where
  "expand (a # s) (b # t) d =
     (if a = b
      then concat (map (\<lambda>i. expand s t (take (prod_list s) (drop (i * prod_list s) d))) [0..<a])
      else concat (replicate b (expand s t d)))"
| "expand s t d = d"

text \<open>
  An elementwise binary operation of torch on two tensors (\<open>x * y\<close> with \<open>fmul\<close>,
  \<open>x + y\<close> with \<open>fadd\<close>).
\<close>

definition elementwise ::
  "(float32 \<Rightarrow> float32 \<Rightarrow> float32) \<Rightarrow> tensor \<Rightarrow> tensor \<Rightarrow> torch_error + tensor" where
  "elementwise f x y =
     (case broadcast_shapes (shape x) (shape y) of
        None \<Rightarrow> Inl ShapeMismatch
      | Some s \<Rightarrow>
          Inr \<lparr> shape = s,
                data = map2 f (expand (pad_shape (length s) (shape x)) s (data x))
                              (expand (pad_shape (length s) (shape y)) s (data y)) \<rparr>)"

text \<open>
  A \<open>Parameter\<close> of the module wraps \<open>torch.tensor([v], dtype=torch.float)\<close>, a tensor
  of shape \<open>(1,)\<close>; the record keeps its single entry and the flag \<open>requires_grad\<close>.
\<close>

record parameter =
  param_value :: float32
  requires_grad :: bool

definition scalar_tensor :: "float32 \<Rightarrow> tensor" where
  "scalar_tensor v = \<lparr> shape = [1], data = [v] \<rparr>"

text \<open>\<open>torch.cat\<close> of the parameters: one vector of their entries; an empty list raises.\<close>

definition cat :: "parameter list \<Rightarrow> torch_error + tensor" where
  "cat ps = (if ps = [] then Inl EmptyCat
             else Inr \<lparr> shape = [length ps], data = map param_value ps \<rparr>)"

text \<open>
  \<open>softmax(x, dim=0)\<close> of a vector, in \<open>torch.float\<close> arithmetic: the entries are
  shifted by their maximum, exponentiated, and divided by the sum of the
  exponentials, so that entry \<open>i\<close> is \<open>exp (x\<^sub>i - m) / \<Sum>\<^sub>j exp (x\<^sub>j - m)\<close>. The
  kernels of torch differ in the order of that sum and in how they divide; on equal
  entries, as in a module just built, every such evaluation gives the same numbers.
  The theorems about \<open>forward\<close> below speak of the entries that \<open>softmax\<close> returns,
  whatever they are.
\<close>

definition softmax :: "(float32 \<Rightarrow> float32) \<Rightarrow> tensor \<Rightarrow> tensor" where
  "softmax fexp x =
     (let exps = (case data x of
                    [] \<Rightarrow> []
                  | v # vs \<Rightarrow> (let m = foldl fmax v vs in map (\<lambda>u. fexp (fsub u m)) (v # vs)));
          denominator = (case exps of [] \<Rightarrow> Finite 0 | e # es \<Rightarrow> foldl fadd e es)
      in x \<lparr> data := map (\<lambda>e. fdiv e denominator) exps \<rparr>)"

text \<open>\<open>torch.split(x, split_size_or_sections=1)\<close> of a vector: its entries, each of shape \<open>(1,)\<close>.\<close>

definition split_ones :: "tensor \<Rightarrow> tensor list" where
  "split_ones x = map scalar_tensor (data x)"

text \<open>
  Python's \<open>sum(pieces)\<close> starts from the integer 0 and adds the pieces from the left,
  so its accumulator is a Python integer or a tensor. An integer plus a tensor adds
  the integer, as a \<open>torch.float\<close> number, to every entry.
\<close>

datatype number_or_tensor = Number int | Tensor tensor

fun add :: "number_or_tensor \<Rightarrow> tensor \<Rightarrow> torch_error + number_or_tensor" where
  "add (Number c) t = Inr (Tensor (t \<lparr> data := map (\<lambda>v. fadd (float_of_int c) v) (data t) \<rparr>))"
| "add (Tensor a) t =
     (case elementwise fadd a t of Inl e \<Rightarrow> Inl e | Inr r \<Rightarrow> Inr (Tensor r))"

fun sum_from :: "number_or_tensor \<Rightarrow> tensor list \<Rightarrow> torch_error + number_or_tensor" where
  "sum_from acc [] = Inr acc"
| "sum_from acc (p # ps) =
     (case add acc p of Inl e \<Rightarrow> Inl e | Inr acc' \<Rightarrow> sum_from acc' ps)"

definition py_sum :: "tensor list \<Rightarrow> torch_error + number_or_tensor" where
  "py_sum pieces = sum_from (Number 0) pieces"

text \<open>A tensor times a Python integer or a tensor (\<open>self.gamma * sum(pieces)\<close>).\<close>

fun mul :: "tensor \<Rightarrow> number_or_tensor \<Rightarrow> torch_error + tensor" where
  "mul g (Number c) = Inr (g \<lparr> data := map (\<lambda>v. fmul v (float_of_int c)) (data g) \<rparr>)"
| "mul g (Tensor t) = elementwise fmul g t"

subsection \<open>The module\<close>

record ScalarMix =
  mixture_size :: int
  scalar_parameters :: "parameter list"
  gamma :: parameter

text \<open>
  \<open>__init__\<close> (lines 96 to 127). The argument \<open>mixture_size\<close>, here \<open>n\<close>, is a Python integer; a list repeated
  a negative number of times, and a range up to a negative number, are empty.
\<close>

definition ScalarMix_init :: "int \<Rightarrow> bool \<Rightarrow> ScalarMix" where
  "ScalarMix_init n trainable =
     (let initial_scalar_parameters = replicate (nat n) (Finite 0) in
      \<lparr> mixture_size = n,
        scalar_parameters =
          map (\<lambda>i. \<lparr> param_value = initial_scalar_parameters ! i, requires_grad = trainable \<rparr>)
            [0..<nat n],
        gamma = \<lparr> param_value = Finite 1, requires_grad = trainable \<rparr> \<rparr>)"

text \<open>
  The record that \<open>log.error\<close> emits (lines 137 to 141): the message is formatted from
  the number of tensors passed and \<open>mixture_size\<close>.
\<close>

datatype log_record = LogError nat int

text \<open>What a call of \<open>forward\<close> can read and change: the module and the log.\<close>

record torch_world =
  scalar_mix :: ScalarMix
  flair_log :: "log_record list"

text \<open>The loop of lines 148 to 150, with the list \<open>pieces\<close> built so far.\<close>

fun mix_pieces :: "(tensor \<times> tensor) list \<Rightarrow> tensor list \<Rightarrow> torch_error + tensor list" where
  "mix_pieces [] pieces = Inr pieces"
| "mix_pieces ((weight, tensor) # rest) pieces =
     (case elementwise fmul weight tensor of
        Inl e \<Rightarrow> Inl e
      | Inr piece \<Rightarrow> mix_pieces rest (pieces @ [piece]))"

text \<open>\<open>forward\<close> (lines 129 to 151).\<close>

definition forward ::
  "(float32 \<Rightarrow> float32) \<Rightarrow> tensor list \<Rightarrow> torch_world \<Rightarrow> (torch_error + tensor) \<times> torch_world" where
  "forward fexp tensors w =
     (let self = scalar_mix w;
          w' = (if int (length tensors) \<noteq> mixture_size self
                then w \<lparr> flair_log := flair_log w @ [LogError (length tensors) (mixture_size self)] \<rparr>
                else w)
      in case cat (scalar_parameters self) of
           Inl e \<Rightarrow> (Inl e, w')
         | Inr weights \<Rightarrow>
             (let normed_weights = split_ones (softmax fexp weights) in
              case mix_pieces (zip normed_weights tensors) [] of
                Inl e \<Rightarrow> (Inl e, w')
              | Inr pieces \<Rightarrow>
                  (case py_sum pieces of
                     Inl e \<Rightarrow> (Inl e, w')
                   | Inr summed \<Rightarrow> (mul (scalar_tensor (param_value (gamma self))) summed, w'))))"

subsection \<open>The mixture as the specification words it\<close>

text \<open>
  The \<open>k\<close>-th normalised weight, \<open>softmax(w)\<^sub>k\<close>, is entry \<open>k\<close> of the softmax of the
  vector of all weights. The mixture \<open>gamma * \<Sum>\<^sub>k softmax(w)\<^sub>k * tensor\<^sub>k\<close> over the
  first \<open>m\<close> tensors of common shape \<open>s\<close> is given entry by entry; its products and
  sums are those of \<open>torch.float\<close>, the sum running from 0 through the terms in their
  order. Multiplying by a tensor of shape \<open>(1,)\<close> turns a tensor without dimensions
  into one of shape \<open>(1,)\<close> and leaves every other shape as it is.
\<close>

definition softmax_weight :: "(float32 \<Rightarrow> float32) \<Rightarrow> float32 list \<Rightarrow> nat \<Rightarrow> float32" where
  "softmax_weight fexp ws k = data (softmax fexp \<lparr> shape = [length ws], data = ws \<rparr>) ! k"

definition mixed_shape :: "nat list \<Rightarrow> nat list" where
  "mixed_shape s = (if s = [] then [1] else s)"

definition weighted_entry ::
  "float32 \<Rightarrow> (nat \<Rightarrow> float32) \<Rightarrow> tensor list \<Rightarrow> nat \<Rightarrow> nat \<Rightarrow> float32" where
  "weighted_entry g weight ts m i =
     fmul g (foldl fadd (Finite 0) (map (\<lambda>k. fmul (weight k) (data (ts ! k) ! i)) [0..<m]))"

definition weighted_mixture ::
  "(float32 \<Rightarrow> float32) \<Rightarrow> float32 \<Rightarrow> float32 list \<Rightarrow> tensor list \<Rightarrow> nat \<Rightarrow> nat list \<Rightarrow> tensor" where
  "weighted_mixture fexp g ws ts m s =
     \<lparr> shape = mixed_shape s,
       data = map (weighted_entry g (softmax_weight fexp ws) ts m) [0..<prod_list s] \<rparr>"



text \<open>A tensor of shape \<open>s\<close> filled with \<open>v\<close> (\<open>torch.full\<close>), for the examples.\<close>

definition full :: "nat list \<Rightarrow> real \<Rightarrow> tensor" where
  "full s v = \<lparr> shape = s, data = replicate (prod_list s) (Finite v) \<rparr>"

section \<open>Properties of the embedding abstraction\<close>

lemma everything_embedded_iff:
  "everything_embedded self ds h \<longleftrightarrow> (\<forall>d \<in> set ds. h d (name self) \<noteq> None)"
  by (induction ds) auto

lemma map_fst_filter_keys:
  "map fst (filter (\<lambda>(k, v). P k) kvs) = filter P (map fst kvs)"
  by (induction kvs) auto

text \<open>
  Claim C2. For an embedding with \<open>static_embeddings = True\<close> and data points that all
  carry a vector under the embedding's name, \<open>embed\<close> returns the data points and leaves
  the world as it was: the hook is not invoked (no new entry in \<open>hook_calls\<close>) and no
  vector map changes. Any number of repeated calls leaves the world as it was, too.
\<close>

theorem embed_static_complete_noop:
  assumes "static_embeddings self"
    and "\<forall>d \<in> set (as_list arg). name self \<in> dom (heap w d)"
  shows "embed hook self arg w = (Inr (as_list arg), w)
       \<and> ((\<lambda>s. snd (embed hook self arg s)) ^^ n) w = w"
proof -
  have complete: "everything_embedded self (as_list arg) (heap w)"
    using assms(2) by (auto simp: everything_embedded_iff)
  have once: "embed hook self arg w = (Inr (as_list arg), w)"
    using assms(1) complete by (simp add: embed_def)
  have "((\<lambda>s. snd (embed hook self arg s)) ^^ n) w = w"
    by (induction n) (simp_all add: once)
  with once show ?thesis by simp
qed

theorem embed_static_complete_noop_witness:
  "embed (store_hook ''glove'' [1, 2]) \<lparr>name = ''glove'', static_embeddings = True\<rparr> (Many [0, 1])
     \<lparr>heap = (\<lambda>d. [''glove'' \<mapsto> [3, 4]]), hook_calls = []\<rparr>
   = (Inr [0, 1], \<lparr>heap = (\<lambda>d. [''glove'' \<mapsto> [3, 4]]), hook_calls = []\<rparr>)
 \<and> ((\<lambda>s. snd (embed (store_hook ''glove'' [1, 2]) \<lparr>name = ''glove'', static_embeddings = True\<rparr>
                (Many [0, 1]) s)) ^^ 2)
     \<lparr>heap = (\<lambda>d. [''glove'' \<mapsto> [3, 4]]), hook_calls = []\<rparr>
   = \<lparr>heap = (\<lambda>d. [''glove'' \<mapsto> [3, 4]]), hook_calls = []\<rparr>"
  using embed_static_complete_noop [of "\<lparr>name = ''glove'', static_embeddings = True\<rparr>" "Many [0, 1]"
      "\<lparr>heap = (\<lambda>d. [''glove'' \<mapsto> [3, 4]]), hook_calls = []\<rparr>" "store_hook ''glove'' [1, 2]" 2]
  by simp

text \<open>
  Claim C3. For an embedding with \<open>static_embeddings = False\<close>, every call
  \<open>embed([d])\<close> invokes the hook on \<open>[d]\<close>, whatever the data point already carries:
  the heap after the call is the heap the hook leaves behind, the outcome of the call
  is the outcome of the hook (its exception, or else the list), and the record of
  invocations grows by this one. The same holds for every argument of \<open>embed\<close>.
\<close>

theorem embed_nonstatic_invokes_hook:
  assumes "\<not> static_embeddings self"
  shows "embed hook self (Many [d]) w
           = (case fst (hook [d] (heap w)) of Some ex \<Rightarrow> Inl ex | None \<Rightarrow> Inr [d],
              \<lparr> heap = snd (hook [d] (heap w)), hook_calls = hook_calls w @ [[d]] \<rparr>)
       \<and> embed hook self arg w
           = (case fst (hook (as_list arg) (heap w)) of Some ex \<Rightarrow> Inl ex | None \<Rightarrow> Inr (as_list arg),
              \<lparr> heap = snd (hook (as_list arg) (heap w)),
                hook_calls = hook_calls w @ [as_list arg] \<rparr>)"
  using assms by (simp add: embed_def Let_def split: prod.splits)

theorem embed_nonstatic_invokes_hook_witness:
  "fst (embed (store_hook ''elmo'' [1, 2]) \<lparr>name = ''elmo'', static_embeddings = False\<rparr>
      (Many [7]) \<lparr>heap = (\<lambda>d. [''elmo'' \<mapsto> [3, 4]]), hook_calls = [[7]]\<rparr>) = Inr [7]
 \<and> heap (snd (embed (store_hook ''elmo'' [1, 2]) \<lparr>name = ''elmo'', static_embeddings = False\<rparr>
      (Many [7]) \<lparr>heap = (\<lambda>d. [''elmo'' \<mapsto> [3, 4]]), hook_calls = [[7]]\<rparr>)) 7 ''elmo''
     = Some [1, 2]
 \<and> hook_calls (snd (embed (store_hook ''elmo'' [1, 2]) \<lparr>name = ''elmo'', static_embeddings = False\<rparr>
      (Many [7]) \<lparr>heap = (\<lambda>d. [''elmo'' \<mapsto> [3, 4]]), hook_calls = [[7]]\<rparr>)) = [[7], [7]]"
  using embed_nonstatic_invokes_hook [of "\<lparr>name = ''elmo'', static_embeddings = False\<rparr>"
      "store_hook ''elmo'' [1, 2]" 7 "\<lparr>heap = (\<lambda>d. [''elmo'' \<mapsto> [3, 4]]), hook_calls = [[7]]\<rparr>"]
  by (simp add: store_hook_def)

text \<open>
  Claim C7. Whenever \<open>embed\<close> returns, it returns a list of the data points it was
  given, in their order: \<open>[d]\<close> for a single data point \<open>d\<close>, and the list itself for
  a list. It returns unless the hook raised, and then the hook's exception leaves
  \<open>embed\<close>.
\<close>

theorem embed_returns_given_points:
  "(fst (embed hook self (Single d) w) = Inr [d]
      \<or> (\<exists>ex. fst (embed hook self (Single d) w) = Inl ex \<and> fst (hook [d] (heap w)) = Some ex))
 \<and> (fst (embed hook self (Many ds) w) = Inr ds
      \<or> (\<exists>ex. fst (embed hook self (Many ds) w) = Inl ex \<and> fst (hook ds (heap w)) = Some ex))"
  by (auto simp: embed_def Let_def split: prod.splits option.splits)

theorem embed_returns_given_points_witness:
  "fst (embed (store_hook ''elmo'' [1, 2]) \<lparr>name = ''elmo'', static_embeddings = False\<rparr>
      (Single 5) \<lparr>heap = (\<lambda>d. Map.empty), hook_calls = []\<rparr>) = Inr [5]
 \<and> fst (embed (store_hook ''elmo'' [1, 2]) \<lparr>name = ''elmo'', static_embeddings = False\<rparr>
      (Many [5, 3, 5]) \<lparr>heap = (\<lambda>d. Map.empty), hook_calls = []\<rparr>) = Inr [5, 3, 5]"
  using embed_returns_given_points [of "store_hook ''elmo'' [1, 2]"
      "\<lparr>name = ''elmo'', static_embeddings = False\<rparr>" 5
      "\<lparr>heap = (\<lambda>d. Map.empty), hook_calls = []\<rparr>" "[5, 3, 5]"]
  by (simp add: store_hook_def)

text \<open>
  Claim C8, as the code has it. When \<open>locals\<close> holds a class under \<open>__class__\<close> and the
  constructor of that class declares a parameter \<open>self\<close>, \<open>get_instance_parameters\<close>
  returns the entries of \<open>locals\<close> whose key is \<open>__class__\<close> or a declared parameter
  other than \<open>self\<close>, in the order in which \<open>locals\<close> holds them. When \<open>locals\<close>
  holds exactly the declared parameters in the order of the signature, followed by
  \<open>__class__\<close>, the keys returned are the signature without \<open>self\<close>, followed by
  \<open>__class__\<close>.
\<close>

theorem get_instance_parameters_restricts_locals:
  assumes "map_of locals ''__class__'' = Some c"
    and "''self'' \<in> set (init_parameters (Some c))"
  shows "get_instance_parameters init_parameters locals
           = Inr (filter (\<lambda>(k, v). k = ''__class__'' \<or> k \<in> set (init_parameters (Some c)) \<and> k \<noteq> ''self'')
                    locals)
       \<and> (map fst locals = init_parameters (Some c) @ [''__class__'']
            \<longrightarrow> (\<exists>r. get_instance_parameters init_parameters locals = Inr r
                     \<and> map fst r = removeAll ''self'' (init_parameters (Some c)) @ [''__class__'']))"
proof -
  let ?ps = "init_parameters (Some c)"
  let ?keep = "\<lambda>k. k = ''__class__'' \<or> k \<in> set ?ps \<and> k \<noteq> ''self''"
  have res: "get_instance_parameters init_parameters locals = Inr (filter (\<lambda>(k, v). ?keep k) locals)"
    using assms by (simp add: get_instance_parameters_def Let_def)
  have "map fst (filter (\<lambda>(k, v). ?keep k) locals) = removeAll ''self'' ?ps @ [''__class__'']"
    if ord: "map fst locals = ?ps @ [''__class__'']"
  proof -
    have "filter ?keep ?ps = filter (\<lambda>k. ''self'' \<noteq> k) ?ps"
      by (rule filter_cong) auto
    then have "filter ?keep ?ps = removeAll ''self'' ?ps"
      by (simp only: removeAll_filter_not_eq)
    then show ?thesis
      using ord by (simp add: map_fst_filter_keys)
  qed
  with res show ?thesis by simp
qed

theorem get_instance_parameters_restricts_locals_witness:
  "get_instance_parameters kwonly_init_parameters
      [(''self'', 0), (''args'', 1), (''b'', 2), (''tmp'', 9), (''__class__'', 3)]
     = Inr [(''args'', 1), (''b'', 2), (''__class__'', 3)]"
  using get_instance_parameters_restricts_locals [of
      "[(''self'', 0), (''args'', 1), (''b'', 2), (''tmp'', 9), (''__class__'', 3)]" "3::nat"
      kwonly_init_parameters]
  by (simp add: kwonly_init_parameters_def)

text \<open>
  Claim C8, as stated, fails. In the body of \<open>def __init__(self, *args, b)\<close> the
  dictionary \<open>locals()\<close> lists \<open>b\<close> before \<open>args\<close>, while the signature lists
  \<open>args\<close> before \<open>b\<close>: the keys returned are in the order of \<open>locals\<close>, not in the
  order of the signature.
\<close>

theorem get_instance_parameters_signature_order_counterexample:
  "get_instance_parameters kwonly_init_parameters
      [(''self'', 0), (''b'', 1), (''args'', 2), (''__class__'', 3)]
     = Inr [(''b'', 1), (''args'', 2), (''__class__'', 3)]
 \<and> map fst [(''b'', 1::nat), (''args'', 2), (''__class__'', 3)]
     \<noteq> removeAll ''self'' (kwonly_init_parameters (Some 3)) @ [''__class__'']"
  by (simp add: get_instance_parameters_def kwonly_init_parameters_def)

text \<open>
  Claim C9. After \<open>Embeddings.__init__\<close>, an instance that had no attribute \<open>name\<close>
  has the name \<open>unnamed_embedding\<close>, and one that had no attribute
  \<open>static_embeddings\<close> has it false; an attribute that the subclass had set keeps
  its value.
\<close>

theorem Embeddings_init_defaults:
  "(attr_name self = None \<longrightarrow> name (Embeddings_init self) = ''unnamed_embedding'')
 \<and> (attr_static_embeddings self = None \<longrightarrow> static_embeddings (Embeddings_init self) = False)
 \<and> (\<forall>n. attr_name self = Some n \<longrightarrow> name (Embeddings_init self) = n)
 \<and> (\<forall>s. attr_static_embeddings self = Some s \<longrightarrow> static_embeddings (Embeddings_init self) = s)"
  by (simp add: Embeddings_init_def)

theorem Embeddings_init_defaults_witness:
  "name (Embeddings_init \<lparr>attr_name = None, attr_static_embeddings = None\<rparr>) = ''unnamed_embedding''
 \<and> static_embeddings (Embeddings_init \<lparr>attr_name = None, attr_static_embeddings = None\<rparr>) = False
 \<and> name (Embeddings_init \<lparr>attr_name = Some ''glove'', attr_static_embeddings = Some True\<rparr>) = ''glove''
 \<and> static_embeddings (Embeddings_init \<lparr>attr_name = Some ''glove'', attr_static_embeddings = Some True\<rparr>) = True"
  using Embeddings_init_defaults [of "\<lparr>attr_name = None, attr_static_embeddings = None\<rparr>"]
    Embeddings_init_defaults [of "\<lparr>attr_name = Some ''glove'', attr_static_embeddings = Some True\<rparr>"]
  by auto

text \<open>
  Claim C10. The completeness check is true of the empty sequence; so for an embedding
  with \<open>static_embeddings = True\<close> the call \<open>embed([])\<close> invokes no hook, changes
  nothing, and returns the empty list.
\<close>

theorem embed_empty_static:
  "everything_embedded self [] h
 \<and> (static_embeddings self \<longrightarrow> embed hook self (Many []) w = (Inr [], w))"
  by (simp add: embed_def)

theorem embed_empty_static_witness:
  "embed failing_hook \<lparr>name = ''glove'', static_embeddings = True\<rparr> (Many [])
     \<lparr>heap = (\<lambda>d. Map.empty), hook_calls = []\<rparr>
   = (Inr [], \<lparr>heap = (\<lambda>d. Map.empty), hook_calls = []\<rparr>)"
  using embed_empty_static [of "\<lparr>name = ''glove'', static_embeddings = True\<rparr>" _ failing_hook
      "\<lparr>heap = (\<lambda>d. Map.empty), hook_calls = []\<rparr>"]
  by simp

section \<open>Properties of the scalar mixture\<close>

subsection \<open>Broadcasting on equal shapes and against a tensor of shape \<open>(1,)\<close>\<close>

lemma concat_blocks:
  "length d = a * k \<Longrightarrow> concat (map (\<lambda>i. take k (drop (i * k) d)) [0..<a]) = d"
proof (induction a arbitrary: d)
  case 0
  then show ?case by simp
next
  case (Suc a)
  have len: "length (take (a * k) d) = a * k"
    using Suc.prems by simp
  have "concat (map (\<lambda>i. take k (drop (i * k) d)) [0..<a])
          = concat (map (\<lambda>i. take k (drop (i * k) (take (a * k) d))) [0..<a])"
  proof -
    have "take k (drop (i * k) d) = take k (drop (i * k) (take (a * k) d))" if "i < a" for i
    proof -
      have "i * k + k \<le> a * k"
        using that by (metis Suc_leI mult_Suc mult_le_mono1 add.commute)
      then show ?thesis
        by (simp add: drop_take min_def)
    qed
    then show ?thesis
      by (auto intro!: arg_cong [where f = concat])
  qed
  also have "\<dots> = take (a * k) d"
    using Suc.IH [OF len] .
  finally have "concat (map (\<lambda>i. take k (drop (i * k) d)) [0..<Suc a])
          = take (a * k) d @ take k (drop (a * k) d)"
    by simp
  also have "\<dots> = take (a * k) d @ drop (a * k) d"
    using Suc.prems by simp
  finally show ?case by simp
qed

lemma expand_same: "length d = prod_list s \<Longrightarrow> expand s s d = d"
proof (induction s arbitrary: d)
  case Nil
  then show ?case by simp
next
  case (Cons a s)
  have "expand s s (take (prod_list s) (drop (i * prod_list s) d))
          = take (prod_list s) (drop (i * prod_list s) d)" if "i < a" for i
  proof (rule Cons.IH)
    have "i * prod_list s + prod_list s \<le> a * prod_list s"
      using that by (metis Suc_leI mult_Suc mult_le_mono1 add.commute)
    then show "length (take (prod_list s) (drop (i * prod_list s) d)) = prod_list s"
      using Cons.prems by simp
  qed
  then have blocks: "map (\<lambda>i. expand s s (take (prod_list s) (drop (i * prod_list s) d))) [0..<a]
           = map (\<lambda>i. take (prod_list s) (drop (i * prod_list s) d)) [0..<a]"
    by (intro map_cong) simp_all
  have "expand (a # s) (a # s) d
          = concat (map (\<lambda>i. expand s s (take (prod_list s) (drop (i * prod_list s) d))) [0..<a])"
    by simp
  also have "\<dots> = d"
    unfolding blocks using Cons.prems by (simp add: concat_blocks)
  finally show ?case .
qed

lemma expand_ones: "expand (replicate (length s) 1) s [c] = replicate (prod_list s) c"
proof (induction s)
  case Nil
  then show ?case by simp
next
  case (Cons b s)
  show ?case
  proof (cases "b = 1")
    case True
    then show ?thesis using Cons.IH by simp
  next
    case False
    have "concat (replicate b (replicate (prod_list s) c)) = replicate (b * prod_list s) c"
      by (induction b) (simp_all add: replicate_add)
    with False show ?thesis using Cons.IH by simp
  qed
qed

lemma broadcast_dims_same: "broadcast_dims s s = Some s"
  by (induction s) (simp_all add: broadcast_dim_def)

lemma broadcast_dims_ones: "broadcast_dims (replicate (length s) 1) s = Some s"
  by (induction s) (auto simp: broadcast_dim_def)

lemma pad_shape_same [simp]: "pad_shape (length s) s = s"
  by (simp add: pad_shape_def)

lemma broadcast_shapes_same: "broadcast_shapes s s = Some s"
  by (simp add: broadcast_shapes_def broadcast_dims_same)

lemma elementwise_same_shape:
  assumes "well_shaped x" "well_shaped y" "shape y = shape x"
  shows "elementwise f x y = Inr \<lparr> shape = shape x, data = map2 f (data x) (data y) \<rparr>"
  using assms by (simp add: elementwise_def broadcast_shapes_same expand_same well_shaped_def)

lemma mixed_shape_props:
  "mixed_shape s = pad_shape (max 1 (length s)) s"
  "mixed_shape s \<noteq> []"
  "prod_list (mixed_shape s) = prod_list s"
  "mixed_shape (mixed_shape s) = mixed_shape s"
  by (cases s; simp add: mixed_shape_def pad_shape_def)+

lemma map2_replicate_left:
  "length ys = n \<Longrightarrow> map2 f (replicate n c) ys = map (f c) ys"
  by (induction ys arbitrary: n) auto

lemma elementwise_scalar:
  assumes "well_shaped t"
  shows "elementwise f (scalar_tensor c) t
           = Inr \<lparr> shape = mixed_shape (shape t), data = map (f c) (data t) \<rparr>"
proof -
  let ?r = "mixed_shape (shape t)"
  have n: "max (length [1::nat]) (length (shape t)) = length ?r"
    by (cases "shape t") (simp_all add: mixed_shape_def)
  have p1: "pad_shape (length ?r) [1] = replicate (length ?r) 1"
    by (cases "shape t") (simp_all add: mixed_shape_def pad_shape_def replicate_append_same)
  have p2: "pad_shape (length ?r) (shape t) = ?r"
    by (cases "shape t") (simp_all add: mixed_shape_def pad_shape_def)
  have "broadcast_shapes [1] (shape t)
          = broadcast_dims (pad_shape (length ?r) [1]) (pad_shape (length ?r) (shape t))"
    unfolding broadcast_shapes_def Let_def n ..
  also have "\<dots> = broadcast_dims (replicate (length ?r) 1) ?r"
    by (simp only: p1 p2)
  finally have bs: "broadcast_shapes [1] (shape t) = Some ?r"
    by (simp only: broadcast_dims_ones)
  have len: "length (data t) = prod_list ?r"
    using assms by (simp add: well_shaped_def mixed_shape_props(3))
  have st: "shape (scalar_tensor c) = [1]" "data (scalar_tensor c) = [c]"
    by (simp_all add: scalar_tensor_def)
  have bs': "broadcast_shapes (shape (scalar_tensor c)) (shape t) = Some ?r"
    unfolding st by (rule bs)
  have e1: "expand (pad_shape (length ?r) (shape (scalar_tensor c))) ?r (data (scalar_tensor c))
              = replicate (prod_list ?r) c"
    unfolding st p1 by (rule expand_ones)
  have e2: "expand (pad_shape (length ?r) (shape t)) ?r (data t) = data t"
    unfolding p2 using len by (rule expand_same)
  have m: "map2 f (replicate (prod_list ?r) c) (data t) = map (f c) (data t)"
    using len by (simp add: map2_replicate_left)
  show ?thesis
    unfolding elementwise_def bs' option.case e1 e2 m ..
qed



subsection \<open>The loop over the pieces and their sum\<close>

lemma mix_pieces_scalar:
  assumes "\<forall>(c, t) \<in> set cts. well_shaped t"
  shows "mix_pieces (map (\<lambda>(c, t). (scalar_tensor c, t)) cts) acc
           = Inr (acc @ map (\<lambda>(c, t). \<lparr> shape = mixed_shape (shape t), data = map (fmul c) (data t) \<rparr>) cts)"
  using assms
proof (induction cts arbitrary: acc)
  case Nil
  then show ?case by simp
next
  case (Cons ct cts)
  obtain c t where ct: "ct = (c, t)" by (cases ct)
  with Cons.prems have "well_shaped t" by simp
  then have "elementwise fmul (scalar_tensor c) t
               = Inr \<lparr> shape = mixed_shape (shape t), data = map (fmul c) (data t) \<rparr>"
    by (rule elementwise_scalar)
  moreover have "\<forall>(c, t) \<in> set cts. well_shaped t"
    using Cons.prems by simp
  ultimately show ?case
    using Cons.IH by (simp add: ct)
qed


lemma tensor_eq_nth:
  assumes "shape a = r" "length (data a) = n"
  shows "(a::tensor) = \<lparr> shape = r, data = map (\<lambda>i. data a ! i) [0..<n] \<rparr>"
  using assms by (cases a) (auto simp: map_nth)

lemma sum_from_tensor:
  assumes "\<forall>p \<in> set ps. shape p = r \<and> length (data p) = prod_list r"
    and "shape a = r" and "length (data a) = prod_list r"
  shows "sum_from (Tensor a) ps
           = Inr (Tensor \<lparr> shape = r,
                           data = map (\<lambda>i. foldl fadd (data a ! i) (map (\<lambda>p. data p ! i) ps))
                                    [0..<prod_list r] \<rparr>)"
  using assms
proof (induction ps arbitrary: a)
  case Nil
  then show ?case
    using tensor_eq_nth [of a r "prod_list r"] by simp
next
  case (Cons p ps)
  let ?a' = "\<lparr> shape = r, data = map2 fadd (data a) (data p) \<rparr>"
  have p: "shape p = r" "length (data p) = prod_list r"
    using Cons.prems(1) by simp_all
  have step: "elementwise fadd a p = Inr ?a'"
    using elementwise_same_shape [of a p fadd] p Cons.prems(2,3)
    by (simp add: well_shaped_def)
  have rest: "sum_from (Tensor ?a') ps
           = Inr (Tensor \<lparr> shape = r,
                   data = map (\<lambda>i. foldl fadd (data ?a' ! i) (map (\<lambda>p. data p ! i) ps))
                            [0..<prod_list r] \<rparr>)"
    using Cons.prems p by (intro Cons.IH) simp_all
  have "map (\<lambda>i. foldl fadd (data ?a' ! i) (map (\<lambda>p. data p ! i) ps)) [0..<prod_list r]
          = map (\<lambda>i. foldl fadd (data a ! i) (map (\<lambda>p. data p ! i) (p # ps))) [0..<prod_list r]"
    using p Cons.prems(3) by (intro map_cong) simp_all
  with step rest show ?case by simp
qed

lemma float_of_int_0: "float_of_int 0 = Finite 0"
  by (simp add: float_of_int_def round32_def)

lemma py_sum_pieces:
  assumes "\<forall>p \<in> set (p0 # ps). shape p = r \<and> length (data p) = prod_list r"
  shows "py_sum (p0 # ps)
           = Inr (Tensor \<lparr> shape = r,
                           data = map (\<lambda>i. foldl fadd (Finite 0) (map (\<lambda>p. data p ! i) (p0 # ps)))
                                    [0..<prod_list r] \<rparr>)"
proof -
  let ?a = "p0 \<lparr> data := map (\<lambda>v. fadd (Finite 0) v) (data p0) \<rparr>"
  have "py_sum (p0 # ps) = sum_from (Tensor ?a) ps"
    by (simp add: py_sum_def float_of_int_0)
  also have "\<dots> = Inr (Tensor \<lparr> shape = r,
                    data = map (\<lambda>i. foldl fadd (data ?a ! i) (map (\<lambda>p. data p ! i) ps))
                             [0..<prod_list r] \<rparr>)"
    using assms by (intro sum_from_tensor) simp_all
  also have "map (\<lambda>i. foldl fadd (data ?a ! i) (map (\<lambda>p. data p ! i) ps)) [0..<prod_list r]
      = map (\<lambda>i. foldl fadd (Finite 0) (map (\<lambda>p. data p ! i) (p0 # ps))) [0..<prod_list r]"
    using assms by (intro map_cong) simp_all
  finally show ?thesis .
qed

subsection \<open>What \<open>forward\<close> computes\<close>

lemma map2_nth:
  "map2 f xs ys = map (\<lambda>k. f (xs ! k) (ys ! k)) [0..<min (length xs) (length ys)]"
  by (rule nth_equalityI) simp_all

lemma forward_world:
  "snd (forward fexp tensors w) =
     (if int (length tensors) \<noteq> mixture_size (scalar_mix w)
      then w \<lparr> flair_log := flair_log w @ [LogError (length tensors) (mixture_size (scalar_mix w))] \<rparr>
      else w)"
  by (simp add: forward_def Let_def split: sum.splits)

lemma length_softmax: "length (data (softmax fexp x)) = length (data x)"
  by (simp add: softmax_def Let_def split: list.splits)

lemma forward_result:
  assumes params: "scalar_parameters (scalar_mix w) \<noteq> []"
    and nonempty: "tensors \<noteq> []"
    and shapes: "\<forall>t \<in> set tensors. shape t = s \<and> well_shaped t"
  shows "fst (forward fexp tensors w)
           = Inr (weighted_mixture fexp (param_value (gamma (scalar_mix w)))
                    (map param_value (scalar_parameters (scalar_mix w))) tensors
                    (min (length (scalar_parameters (scalar_mix w))) (length tensors)) s)"
proof -
  let ?ps = "scalar_parameters (scalar_mix w)"
  let ?ws = "map param_value ?ps"
  let ?g = "param_value (gamma (scalar_mix w))"
  let ?W = "\<lparr> shape = [length ?ps], data = ?ws \<rparr>"
  let ?cs = "data (softmax fexp ?W)"
  let ?r = "mixed_shape s"
  let ?N = "prod_list s"
  let ?m = "min (length ?ps) (length tensors)"
  let ?piece = "\<lambda>(c, t). \<lparr> shape = mixed_shape (shape t), data = map (fmul c) (data t) \<rparr>"
  let ?pieces = "map ?piece (zip ?cs tensors)"
  let ?summed = "\<lparr> shape = ?r,
      data = map (\<lambda>i. foldl fadd (Finite 0) (map (\<lambda>p. data p ! i) ?pieces)) [0..<?N] \<rparr>"
  have weights: "cat ?ps = Inr ?W"
    using params by (simp add: cat_def)
  have len_cs: "length ?cs = length ?ps"
    by (simp add: length_softmax)
  have normed: "split_ones (softmax fexp ?W) = map scalar_tensor ?cs"
    by (simp add: split_ones_def)
  have zipped: "zip (map scalar_tensor ?cs) tensors = map (\<lambda>(c, t). (scalar_tensor c, t)) (zip ?cs tensors)"
    by (rule zip_map1)
  have ws: "\<forall>(c, t) \<in> set (zip ?cs tensors). well_shaped t"
    using shapes by (auto dest: set_zip_rightD)
  have loop: "mix_pieces (zip (map scalar_tensor ?cs) tensors) [] = Inr ?pieces"
    unfolding zipped using mix_pieces_scalar [OF ws, of "[]"] by simp
  have piece_shape: "\<forall>p \<in> set ?pieces. shape p = ?r \<and> length (data p) = prod_list ?r"
    using shapes by (auto simp: well_shaped_def mixed_shape_props(3) dest!: set_zip_rightD)
  have "?cs \<noteq> []"
    using params len_cs by auto
  then have "zip ?cs tensors \<noteq> []"
    using nonempty by (cases ?cs; cases tensors) simp_all
  then obtain p0 ps where pieces_eq: "?pieces = p0 # ps"
    by (cases ?pieces) simp_all
  have "\<forall>p \<in> set (p0 # ps). shape p = ?r \<and> length (data p) = prod_list ?r"
    using piece_shape unfolding pieces_eq .
  then have "py_sum (p0 # ps)
      = Inr (Tensor \<lparr> shape = ?r,
               data = map (\<lambda>i. foldl fadd (Finite 0) (map (\<lambda>p. data p ! i) (p0 # ps)))
                        [0..<prod_list ?r] \<rparr>)"
    by (rule py_sum_pieces)
  then have summed: "py_sum ?pieces = Inr (Tensor ?summed)"
    unfolding pieces_eq [symmetric] mixed_shape_props(3) .
  have "well_shaped ?summed"
    by (simp add: well_shaped_def mixed_shape_props(3))
  then have scaled: "mul (scalar_tensor ?g) (Tensor ?summed)
      = Inr \<lparr> shape = ?r, data = map (fmul ?g) (data ?summed) \<rparr>"
    using elementwise_scalar [of ?summed fmul ?g] by (simp add: mixed_shape_props(4))
  have entry: "fmul ?g (foldl fadd (Finite 0) (map (\<lambda>p. data p ! i) ?pieces))
                 = weighted_entry ?g (softmax_weight fexp ?ws) tensors ?m i"
    if "i < ?N" for i
  proof -
    have "map (\<lambda>p. data p ! i) ?pieces = map (\<lambda>(c, t). fmul c (data t ! i)) (zip ?cs tensors)"
    proof -
      have "data (?piece ct) ! i = (case ct of (c, t) \<Rightarrow> fmul c (data t ! i))"
        if "ct \<in> set (zip ?cs tensors)" for ct
      proof -
        obtain c t where ct: "ct = (c, t)" by (cases ct)
        with that have "t \<in> set tensors" by (auto dest: set_zip_rightD)
        with shapes \<open>i < ?N\<close> have "i < length (data t)" by (simp add: well_shaped_def)
        then show ?thesis by (simp add: ct)
      qed
      then show ?thesis
        by (simp add: comp_def cong: map_cong)
    qed
    also have "\<dots> = map (\<lambda>k. fmul (?cs ! k) (data (tensors ! k) ! i)) [0..<min (length ?cs) (length tensors)]"
      by (rule map2_nth)
    also have "\<dots> = map (\<lambda>k. fmul (softmax_weight fexp ?ws k) (data (tensors ! k) ! i)) [0..<?m]"
      by (simp add: softmax_weight_def len_cs)
    finally show ?thesis
      by (simp add: weighted_entry_def)
  qed
  have "map (fmul ?g) (data ?summed)
          = map (weighted_entry ?g (softmax_weight fexp ?ws) tensors ?m) [0..<?N]"
    using entry by simp
  then have "Inr \<lparr> shape = ?r, data = map (fmul ?g) (data ?summed) \<rparr>
          = Inr (weighted_mixture fexp ?g ?ws tensors ?m s)"
    by (simp add: weighted_mixture_def)
  with weights normed loop summed scaled show ?thesis
    by (simp add: forward_def Let_def)
qed

text \<open>
  Without tensors the loop runs zero times, \<open>sum([])\<close> is the integer 0, and the
  result is \<open>gamma * 0\<close>, a tensor of shape \<open>(1,)\<close>. Without weights \<open>torch.cat\<close>
  raises; a module built with \<open>mixture_size\<close> below 1 has no weights.
\<close>

lemma forward_no_tensors:
  assumes "scalar_parameters (scalar_mix w) \<noteq> []"
  shows "fst (forward fexp [] w) = Inr (scalar_tensor (fmul (param_value (gamma (scalar_mix w))) (Finite 0)))"
  using assms by (simp add: forward_def Let_def cat_def py_sum_def scalar_tensor_def float_of_int_0)

lemma forward_without_weights:
  assumes "scalar_parameters (scalar_mix w) = []"
  shows "fst (forward fexp tensors w) = Inl EmptyCat"
  using assms by (simp add: forward_def Let_def cat_def)

subsection \<open>Equal weights\<close>





subsection \<open>The claims about \<open>forward\<close> and the constructor\<close>

text \<open>
  The equations that evaluate \<open>torch.float\<close> arithmetic on given numbers, and the
  softmax of three zero weights: each entry is the number nearest to \<open>1/3\<close>.
\<close>

lemmas float32_eval =
  round32_def exponent32_def raise_exponent.simps lower_exponent.simps pow2_def round_half_even_def
  fadd_def fmul_def fdiv_def fsub_def fmax_def fless_def with_sign_def signed_zero_def signed_inf_def
  Let_def

lemma softmax_three_zeros:
  "data (softmax exp32 \<lparr>shape = sh, data = [Finite 0, Finite 0, Finite 0]\<rparr>)
     = [Finite (11184811 / 33554432), Finite (11184811 / 33554432), Finite (11184811 / 33554432)]"
  apply (simp add: softmax_def Let_def)
  apply (simp add: float32_eval)
  done

text \<open>
  Claim C1. Take a module as the specification describes it, holding
  \<open>mixture_size \<ge> 1\<close> weights, and a list of \<open>mixture_size\<close> tensors of one shape
  \<open>s\<close>, as the docstring of \<open>forward\<close> requires. Then \<open>forward\<close> returns the tensor
  whose entry \<open>i\<close> is \<open>gamma * \<Sum>\<^sub>k softmax(w)\<^sub>k * tensor\<^sub>k[i]\<close> in \<open>torch.float\<close>
  arithmetic: the softmax is taken over the vector of all \<open>mixture_size\<close> weights,
  weight \<open>k\<close> multiplies tensor \<open>k\<close>, the products are summed from 0 in their order,
  and the sum is multiplied by \<open>gamma\<close>. Nothing is logged and the module is
  unchanged.
\<close>

theorem forward_weighted_sum:
  assumes "int (length tensors) = mixture_size (scalar_mix w)"
    and "int (length (scalar_parameters (scalar_mix w))) = mixture_size (scalar_mix w)"
    and "1 \<le> mixture_size (scalar_mix w)"
    and "\<forall>t \<in> set tensors. shape t = s \<and> well_shaped t"
  shows "forward fexp tensors w
           = (Inr (weighted_mixture fexp (param_value (gamma (scalar_mix w)))
                     (map param_value (scalar_parameters (scalar_mix w))) tensors (length tensors) s),
              w)"
proof -
  have "scalar_parameters (scalar_mix w) \<noteq> []" and "tensors \<noteq> []"
    using assms(1-3) by auto
  then have "fst (forward fexp tensors w)
           = Inr (weighted_mixture fexp (param_value (gamma (scalar_mix w)))
                    (map param_value (scalar_parameters (scalar_mix w))) tensors
                    (min (length (scalar_parameters (scalar_mix w))) (length tensors)) s)"
    using assms(4) by (rule forward_result)
  moreover have "length (scalar_parameters (scalar_mix w)) = length tensors"
    using assms(1,2) by simp
  moreover have "snd (forward fexp tensors w) = w"
    using assms(1) by (simp add: forward_world)
  ultimately show ?thesis
    by (simp add: prod_eq_iff)
qed


theorem forward_weighted_sum_witness:
  "forward exp32
     [\<lparr>shape = [2], data = [Finite 7, Finite 1]\<rparr>, \<lparr>shape = [2], data = [Finite 7, Finite 2]\<rparr>,
      \<lparr>shape = [2], data = [Finite 7, Finite 3]\<rparr>]
     \<lparr>scalar_mix = \<lparr>mixture_size = 3,
                    scalar_parameters = [\<lparr>param_value = Finite 0, requires_grad = True\<rparr>,
                                         \<lparr>param_value = Finite 0, requires_grad = True\<rparr>,
                                         \<lparr>param_value = Finite 0, requires_grad = True\<rparr>],
                    gamma = \<lparr>param_value = Finite 2, requires_grad = True\<rparr>\<rparr>,
      flair_log = []\<rparr>
   = (Inr \<lparr>shape = [2], data = [Finite (14680065 / 1048576), Finite 4]\<rparr>,
      \<lparr>scalar_mix = \<lparr>mixture_size = 3,
                    scalar_parameters = [\<lparr>param_value = Finite 0, requires_grad = True\<rparr>,
                                         \<lparr>param_value = Finite 0, requires_grad = True\<rparr>,
                                         \<lparr>param_value = Finite 0, requires_grad = True\<rparr>],
                    gamma = \<lparr>param_value = Finite 2, requires_grad = True\<rparr>\<rparr>,
      flair_log = []\<rparr>)"
  using forward_weighted_sum [of
     "[\<lparr>shape = [2], data = [Finite 7, Finite 1]\<rparr>, \<lparr>shape = [2], data = [Finite 7, Finite 2]\<rparr>,
       \<lparr>shape = [2], data = [Finite 7, Finite 3]\<rparr>]"
     "\<lparr>scalar_mix = \<lparr>mixture_size = 3,
                    scalar_parameters = [\<lparr>param_value = Finite 0, requires_grad = True\<rparr>,
                                         \<lparr>param_value = Finite 0, requires_grad = True\<rparr>,
                                         \<lparr>param_value = Finite 0, requires_grad = True\<rparr>],
                    gamma = \<lparr>param_value = Finite 2, requires_grad = True\<rparr>\<rparr>,
      flair_log = []\<rparr>" "[2]" exp32]
  apply (simp add: well_shaped_def weighted_mixture_def weighted_entry_def mixed_shape_def
      softmax_weight_def softmax_three_zeros upt_rec)
  apply (simp add: float32_eval)
  done

text \<open>
  Claim C4. Take a module as the specification describes it, holding
  \<open>mixture_size \<ge> 1\<close> weights, and a list of tensors of one shape \<open>s\<close> whose length
  differs from \<open>mixture_size\<close>. Then \<open>forward\<close> does not raise:
  it emits one log record with the two lengths and returns \<open>gamma\<close> times the weighted
  sum over the first \<open>min(mixture_size, len(tensors))\<close> pairs of a normalised weight
  and a tensor, the softmax being taken over all \<open>mixture_size\<close> weights. For an empty
  list that sum is the integer 0 and the result is \<open>gamma * 0\<close>.
\<close>

theorem forward_length_mismatch:
  assumes "int (length tensors) \<noteq> mixture_size (scalar_mix w)"
    and "int (length (scalar_parameters (scalar_mix w))) = mixture_size (scalar_mix w)"
    and "1 \<le> mixture_size (scalar_mix w)"
    and "\<forall>t \<in> set tensors. shape t = s \<and> well_shaped t"
  shows "snd (forward fexp tensors w)
           = w \<lparr> flair_log := flair_log w @ [LogError (length tensors) (mixture_size (scalar_mix w))] \<rparr>
       \<and> fst (forward fexp tensors w)
           = Inr (if tensors = []
                  then scalar_tensor (fmul (param_value (gamma (scalar_mix w))) (Finite 0))
                  else weighted_mixture fexp (param_value (gamma (scalar_mix w)))
                         (map param_value (scalar_parameters (scalar_mix w))) tensors
                         (min (nat (mixture_size (scalar_mix w))) (length tensors)) s)"
proof -
  have params: "scalar_parameters (scalar_mix w) \<noteq> []"
    using assms(2,3) by auto
  have count: "length (scalar_parameters (scalar_mix w)) = nat (mixture_size (scalar_mix w))"
    using assms(2) by simp
  have logged: "snd (forward fexp tensors w)
      = w \<lparr> flair_log := flair_log w @ [LogError (length tensors) (mixture_size (scalar_mix w))] \<rparr>"
    using assms(1) by (simp add: forward_world)
  show ?thesis
  proof (cases "tensors = []")
    case True
    with logged forward_no_tensors [OF params, of fexp] show ?thesis by simp
  next
    case False
    with logged forward_result [OF params False assms(4), of fexp] show ?thesis
      by (simp add: count)
  qed
qed

theorem forward_length_mismatch_witness:
  "snd (forward exp32 [full [1] 7, full [1] 7] \<lparr>scalar_mix = ScalarMix_init 3 False, flair_log = []\<rparr>)
     = \<lparr>scalar_mix = ScalarMix_init 3 False, flair_log = [LogError 2 3]\<rparr>
 \<and> fst (forward exp32 [full [1] 7, full [1] 7] \<lparr>scalar_mix = ScalarMix_init 3 False, flair_log = []\<rparr>)
     = Inr \<lparr>shape = [1], data = [Finite (4893355 / 1048576)]\<rparr>"
  using forward_length_mismatch [of "[full [1] 7, full [1] 7]"
      "\<lparr>scalar_mix = ScalarMix_init 3 False, flair_log = []\<rparr>" "[1]" exp32]
  apply (simp add: ScalarMix_init_def full_def well_shaped_def weighted_mixture_def weighted_entry_def
      mixed_shape_def softmax_weight_def softmax_three_zeros upt_rec numeral_3_eq_3)
  apply (simp add: float32_eval)
  done




text \<open>
  Claim C6. The constructor sets \<open>mixture_size\<close>, builds that many weights, each with
  the entry 0 and the trainability flag given, and sets \<open>gamma\<close> to 1 with the same
  flag. \<open>forward\<close> leaves the module, and so every weight, \<open>gamma\<close> and every flag,
  as it was.
\<close>

theorem ScalarMix_init_parameters:
  "mixture_size (ScalarMix_init n trainable) = n
 \<and> length (scalar_parameters (ScalarMix_init n trainable)) = nat n
 \<and> (\<forall>p \<in> set (scalar_parameters (ScalarMix_init n trainable)).
        param_value p = Finite 0 \<and> requires_grad p = trainable)
 \<and> param_value (gamma (ScalarMix_init n trainable)) = Finite 1
 \<and> requires_grad (gamma (ScalarMix_init n trainable)) = trainable
 \<and> scalar_mix (snd (forward fexp tensors w)) = scalar_mix w"
  by (auto simp: ScalarMix_init_def forward_world)

theorem ScalarMix_init_parameters_witness:
  "ScalarMix_init 2 True
     = \<lparr>mixture_size = 2,
        scalar_parameters = [\<lparr>param_value = Finite 0, requires_grad = True\<rparr>,
                             \<lparr>param_value = Finite 0, requires_grad = True\<rparr>],
        gamma = \<lparr>param_value = Finite 1, requires_grad = True\<rparr>\<rparr>
 \<and> scalar_mix (snd (forward exp32 [full [2] 3] \<lparr>scalar_mix = ScalarMix_init 2 True, flair_log = []\<rparr>))
     = ScalarMix_init 2 True"
  using ScalarMix_init_parameters [of 2 True exp32 "[full [2] 3]"
      "\<lparr>scalar_mix = ScalarMix_init 2 True, flair_log = []\<rparr>"]
  by (simp add: ScalarMix_init_def numeral_2_eq_2 upt_rec)

end
